theory Spec2Isabelle
  imports Main "HOL-Library.Sublist"
begin

section \<open>The file-ingestion pipeline of \<^verbatim>\<open>main.py\<close>\<close>

text \<open>
  The development embeds \<^verbatim>\<open>add_file_to_library\<close> and \<^verbatim>\<open>download_file_from_uri\<close>
  (\<^verbatim>\<open>src/main.py\<close>, lines 248 to 329). Both are glue around three collaborators
  that live outside the repository: the operating system's files, the \<^verbatim>\<open>httpx\<close>
  client and the \<^verbatim>\<open>llmware\<close> library store. Each collaborator is a part of an explicit
  world that the functions thread through, or a field of an environment record; every
  place where the Python can raise is a branch that returns \<open>Inl\<close>.

  Exceptions that are not subclasses of \<^verbatim>\<open>Exception\<close> (interpreter exit, task
  cancellation) and interleavings of concurrent requests are outside the model.
\<close>

subsection \<open>Python values and exceptions\<close>

text \<open>What the parser may hand back: an arbitrary Python object, of which the
  pipeline only inspects the truth value and whether it is a \<^verbatim>\<open>dict\<close>.\<close>

datatype pyval =
    PyNone
  | PyBool bool
  | PyInt int
  | PyStr string
  | PyList "pyval list"
  | PyDict "(pyval \<times> pyval) list"

text \<open>Python's truth value, as \<^verbatim>\<open>x or y\<close> tests it.\<close>

fun truthy :: "pyval \<Rightarrow> bool" where
  "truthy PyNone = False"
| "truthy (PyBool b) = b"
| "truthy (PyInt i) = (i \<noteq> 0)"
| "truthy (PyStr s) = (s \<noteq> [])"
| "truthy (PyList xs) = (xs \<noteq> [])"
| "truthy (PyDict kvs) = (kvs \<noteq> [])"

definition py_or :: "pyval \<Rightarrow> pyval \<Rightarrow> pyval" where
  "py_or x y = (if truthy x then x else y)"

text \<open>
  Exceptions, by the classes the handlers tell apart. \<open>RequestError\<close> and
  \<open>HTTPStatusError\<close> are the two direct subclasses of \<^verbatim>\<open>httpx.HTTPError\<close>;
  everything else is some other subclass of \<^verbatim>\<open>Exception\<close>. Each carries the text
  that \<^verbatim>\<open>str(e)\<close> yields.
\<close>

datatype exn =
    RequestError string
  | HTTPStatusError nat string
  | OSError string
  | ValidationError string
  | LibraryNotFound string
  | OtherException string

fun isinstance_HTTPError :: "exn \<Rightarrow> bool" where
  "isinstance_HTTPError (RequestError _) = True"
| "isinstance_HTTPError (HTTPStatusError _ _) = True"
| "isinstance_HTTPError _ = False"

fun str_exn :: "exn \<Rightarrow> string" where
  "str_exn (RequestError m) = m"
| "str_exn (HTTPStatusError _ m) = m"
| "str_exn (OSError m) = m"
| "str_exn (ValidationError m) = m"
| "str_exn (LibraryNotFound m) = m"
| "str_exn (OtherException m) = m"

subsection \<open>The world: files, library store, requests sent, log\<close>

datatype level = INFO | WARNING | ERROR

text \<open>A log record: the level, the literal part of the f-string, the interpolated value.\<close>

datatype log_arg = Str string | Val pyval | Exc exn

type_synonym log_record = "level \<times> string \<times> log_arg"

text \<open>
  The waits of an HTTP exchange, as \<^verbatim>\<open>httpx\<close> tells them apart: for a connection from
  the pool, for the connection to be made, for a chunk to be sent, for a chunk to arrive.
  A timeout configuration gives each kind of wait its own limit, in seconds;
  \<^verbatim>\<open>timeout=t\<close> sets all four to \<open>t\<close>. There is no limit on their sum.
\<close>

datatype phase = Pool | Connect | Write | Read

record timeouts =
  pool_timeout :: nat
  connect_timeout :: nat
  write_timeout :: nat
  read_timeout :: nat

definition Timeout :: "nat \<Rightarrow> timeouts" where
  "Timeout t = \<lparr>pool_timeout = t, connect_timeout = t, write_timeout = t, read_timeout = t\<rparr>"

fun limit :: "timeouts \<Rightarrow> phase \<Rightarrow> nat" where
  "limit t Pool = pool_timeout t"
| "limit t Connect = connect_timeout t"
| "limit t Write = write_timeout t"
| "limit t Read = read_timeout t"

record http_request =
  verb :: string
  url :: string
  follow_redirects :: bool
  timeout :: timeouts

record response =
  status_code :: nat
  content :: string

text \<open>
  \<open>files\<close> maps a path to the bytes stored there. \<open>no_open\<close>, \<open>no_write\<close> and
  \<open>no_remove\<close> are the paths at which the operating system refuses
  \<^verbatim>\<open>open(p, 'wb')\<close>, \<^verbatim>\<open>f.write\<close> and \<^verbatim>\<open>os.remove\<close> (missing directory, permissions,
  full device). \<open>libraries\<close> are the names in the library store, \<open>sent\<close> the HTTP
  requests issued so far, \<open>clock\<close> the seconds spent waiting on the network so far,
  \<open>logs\<close> the records written through \<^verbatim>\<open>logger\<close>.
\<close>

record world =
  files :: "string \<rightharpoonup> string"
  no_open :: "string set"
  no_write :: "string set"
  no_remove :: "string set"
  libraries :: "string list"
  sent :: "http_request list"
  clock :: nat
  logs :: "log_record list"

text \<open>
  What the surroundings decide: the directory \<^verbatim>\<open>tempfile.gettempdir()\<close> names, the
  course of the exchange the network offers for a request (the waits it imposes, each with
  the seconds it lasts, and what comes at the end of them: an exception or a response),
  the faults of the library store, and the parser \<^verbatim>\<open>library.add_file\<close>, which is given
  the library, the local path and the files and may change the files.
\<close>

record env =
  gettempdir :: string
  transfer :: "http_request \<Rightarrow> (phase \<times> nat) list \<times> (exn + response)"
  load_fault :: "string \<Rightarrow> exn option"
  create_fault :: "string \<Rightarrow> exn option"
  add_file :: "string \<Rightarrow> string \<Rightarrow> (string \<rightharpoonup> string) \<Rightarrow> (exn + pyval) \<times> (string \<rightharpoonup> string)"

definition logger :: "level \<Rightarrow> string \<Rightarrow> log_arg \<Rightarrow> world \<Rightarrow> world" where
  "logger lv msg a w = w\<lparr>logs := logs w @ [(lv, msg, a)]\<rparr>"

subsection \<open>Operating system\<close>

definition os_path_exists :: "world \<Rightarrow> string \<Rightarrow> bool" where
  "os_path_exists w p = (files w p \<noteq> None)"

definition os_remove :: "world \<Rightarrow> string \<Rightarrow> exn + world" where
  "os_remove w p =
     (if files w p = None then Inl (OSError ''No such file or directory'')
      else if p \<in> no_remove w then Inl (OSError ''Permission denied'')
      else Inr (w\<lparr>files := (files w)(p := None)\<rparr>))"

text \<open>\<^verbatim>\<open>with open(p, 'wb') as f: f.write(data)\<close>: opening creates or truncates the
  file, writing fills it; either step may raise.\<close>

definition open_wb_write :: "world \<Rightarrow> string \<Rightarrow> string \<Rightarrow> (exn + unit) \<times> world" where
  "open_wb_write w p data =
     (if p \<in> no_open w then (Inl (OSError ''cannot open''), w)
      else if p \<in> no_write w then (Inl (OSError ''cannot write''), w\<lparr>files := (files w)(p \<mapsto> [])\<rparr>)
      else (Inr (), w\<lparr>files := (files w)(p \<mapsto> data)\<rparr>))"

text \<open>\<^verbatim>\<open>os.path.join\<close> of two components (POSIX).\<close>

definition os_path_join :: "string \<Rightarrow> string \<Rightarrow> string" where
  "os_path_join a b =
     (if take 1 b = ''/'' then b
      else if a = [] \<or> last a = CHR ''/'' then a @ b
      else a @ ''/'' @ b)"

subsection \<open>The library store\<close>

text \<open>
  \<^verbatim>\<open>Library().load_library(name)\<close> raises when the store is at fault or holds no
  library of that name. \<^verbatim>\<open>Library().create_new_library(name)\<close> raises when the
  store refuses, and adds the name otherwise. A library handle is its name.
\<close>

definition load_library :: "env \<Rightarrow> world \<Rightarrow> string \<Rightarrow> exn + string" where
  "load_library en w name =
     (case load_fault en name of
        Some e \<Rightarrow> Inl e
      | None \<Rightarrow> if name \<in> set (libraries w) then Inr name else Inl (LibraryNotFound name))"

definition create_new_library :: "env \<Rightarrow> world \<Rightarrow> string \<Rightarrow> (exn + string) \<times> world" where
  "create_new_library en w name =
     (case create_fault en name of
        Some e \<Rightarrow> (Inl e, w)
      | None \<Rightarrow> (Inr name, w\<lparr>libraries := libraries w @ [name]\<rparr>))"

subsection \<open>\<^verbatim>\<open>download_file_from_uri\<close>\<close>

definition local_path :: "env \<Rightarrow> string \<Rightarrow> string" where
  "local_path en fname = os_path_join (gettempdir en) (''llmware_'' @ fname)"

text \<open>
  The client sits through the waits in turn. A wait longer than the limit of its kind
  ends at the limit, with that kind's timeout exception (each a \<^verbatim>\<open>httpx.HTTPError\<close>);
  otherwise the next wait begins. \<open>run_waits\<close> returns the wait that timed out, if any,
  and the seconds spent.
\<close>

fun run_waits :: "timeouts \<Rightarrow> (phase \<times> nat) list \<Rightarrow> phase option \<times> nat" where
  "run_waits t [] = (None, 0)"
| "run_waits t ((ph, d) # ws) =
     (if limit t ph < d then (Some ph, limit t ph)
      else (fst (run_waits t ws), d + snd (run_waits t ws)))"

fun timeout_text :: "phase \<Rightarrow> string" where
  "timeout_text Pool = ''PoolTimeout''"
| "timeout_text Connect = ''ConnectTimeout''"
| "timeout_text Write = ''WriteTimeout''"
| "timeout_text Read = ''ReadTimeout''"

text \<open>\<^verbatim>\<open>client.get\<close> under the client's timeout configuration, and the seconds it takes.\<close>

definition client_get :: "env \<Rightarrow> http_request \<Rightarrow> exn + response" where
  "client_get en rq =
     (case fst (run_waits (timeout rq) (fst (transfer en rq))) of
        Some ph \<Rightarrow> Inl (RequestError (timeout_text ph))
      | None \<Rightarrow> snd (transfer en rq))"

definition elapsed :: "env \<Rightarrow> http_request \<Rightarrow> nat" where
  "elapsed en rq = snd (run_waits (timeout rq) (fst (transfer en rq)))"

definition get_request :: "string \<Rightarrow> http_request" where
  "get_request uri = \<lparr>verb = ''GET'', url = uri, follow_redirects = True, timeout = Timeout 300\<rparr>"

definition is_success :: "response \<Rightarrow> bool" where
  "is_success r = (200 \<le> status_code r \<and> status_code r < 300)"

definition raise_for_status :: "response \<Rightarrow> exn + unit" where
  "raise_for_status r =
     (if is_success r then Inr () else Inl (HTTPStatusError (status_code r) ''bad status''))"

definition download_file_from_uri :: "env \<Rightarrow> world \<Rightarrow> string \<Rightarrow> string \<Rightarrow> (exn + string) \<times> world" where
  "download_file_from_uri en w uri fname =
     (let w1 = w\<lparr>sent := sent w @ [get_request uri],
                 clock := clock w + elapsed en (get_request uri)\<rparr> in
      case client_get en (get_request uri) of
        Inl e \<Rightarrow> (Inl e, w1)
      | Inr r \<Rightarrow>
          (case raise_for_status r of
             Inl e \<Rightarrow> (Inl e, w1)
           | Inr _ \<Rightarrow>
               (case open_wb_write w1 (local_path en fname) (content r) of
                  (Inl e, w2) \<Rightarrow> (Inl e, w2)
                | (Inr _, w2) \<Rightarrow> (Inr (local_path en fname), w2))))"

subsection \<open>\<^verbatim>\<open>add_file_to_library\<close>\<close>

record AddFileRequest =
  filename :: string
  library_name :: string
  blob_uri :: string

text \<open>The response model; \<open>out_filename\<close> and \<open>out_library_name\<close> are its fields
  \<^verbatim>\<open>filename\<close> and \<^verbatim>\<open>library_name\<close>.\<close>

record AddFileResponse =
  out_filename :: string
  out_library_name :: string
  parsing_output :: "(pyval \<times> pyval) list"
  message :: string

text \<open>Building the response validates the field typed \<^verbatim>\<open>dict\<close>.\<close>

definition mk_AddFileResponse :: "string \<Rightarrow> string \<Rightarrow> pyval \<Rightarrow> string \<Rightarrow> exn + AddFileResponse" where
  "mk_AddFileResponse f l v m =
     (case v of
        PyDict kvs \<Rightarrow> Inr \<lparr>out_filename = f, out_library_name = l, parsing_output = kvs, message = m\<rparr>
      | _ \<Rightarrow> Inl (ValidationError ''parsing_output: Input should be a valid dictionary''))"

text \<open>What the caller of the endpoint sees when it does not return: the
  \<^verbatim>\<open>HTTPException\<close> with its status code and detail, or an exception no handler caught.\<close>

datatype failure = HTTPException nat string | Uncaught exn

text \<open>Lines 262 to 267: the inner \<^verbatim>\<open>try\<close> with its bare \<^verbatim>\<open>except\<close>.\<close>

definition resolve_library :: "env \<Rightarrow> world \<Rightarrow> string \<Rightarrow> (exn + string) \<times> world" where
  "resolve_library en w name =
     (case load_library en w name of
        Inr library \<Rightarrow> (Inr library, logger INFO ''Loaded existing library: '' (Str name) w)
      | Inl _ \<Rightarrow> create_new_library en (logger INFO ''Creating new library: '' (Str name) w) name)"

text \<open>Lines 257 to 287: the body of the outer \<^verbatim>\<open>try\<close>. The third component is the
  variable \<^verbatim>\<open>temp_file_path\<close> as the body leaves it.\<close>

definition try_body :: "env \<Rightarrow> world \<Rightarrow> AddFileRequest \<Rightarrow> (exn + AddFileResponse) \<times> world \<times> string option" where
  "try_body en w request =
     (let w1 = logger INFO ''Adding file to library: '' (Str (library_name request)) w;
          w2 = logger INFO ''Blob URI: '' (Str (blob_uri request)) w1;
          w3 = logger INFO ''File: '' (Str (filename request)) w2
      in case resolve_library en w3 (library_name request) of
           (Inl e, w4) \<Rightarrow> (Inl e, w4, None)
         | (Inr library, w4) \<Rightarrow>
             (case download_file_from_uri en
                     (logger INFO ''Downloading file from: '' (Str (blob_uri request)) w4)
                     (blob_uri request) (filename request) of
                (Inl e, w5) \<Rightarrow> (Inl e, w5, None)
              | (Inr temp_file_path, w5) \<Rightarrow>
                  (let w6 = logger INFO ''Processing file with LLMware: '' (Str temp_file_path) w5 in
                   case add_file en library temp_file_path (files w6) of
                     (Inl e, fs) \<Rightarrow> (Inl e, w6\<lparr>files := fs\<rparr>, Some temp_file_path)
                   | (Inr out, fs) \<Rightarrow>
                       (let w7 = logger INFO ''File parsing complete: '' (Val out) (w6\<lparr>files := fs\<rparr>) in
                        (mk_AddFileResponse (filename request) (library_name request)
                           (py_or out (PyDict [])) ''File added successfully to library'',
                         w7, Some temp_file_path)))))"

text \<open>Lines 289 to 300: the two handlers, tried in order.\<close>

definition except_handlers :: "AddFileRequest \<Rightarrow> (exn + AddFileResponse) \<times> world \<Rightarrow> (failure + AddFileResponse) \<times> world" where
  "except_handlers request rw =
     (case rw of
        (Inr resp, w) \<Rightarrow> (Inr resp, w)
      | (Inl e, w) \<Rightarrow>
          if isinstance_HTTPError e
          then (Inl (HTTPException 400 (''Failed to download file from blob storage: '' @ str_exn e)),
                logger ERROR (''Failed to download file from '' @ blob_uri request @ '': '') (Exc e) w)
          else (Inl (HTTPException 500 (''Failed to add file to library: '' @ str_exn e)),
                logger ERROR ''Error adding file to library: '' (Exc e) w))"

text \<open>Lines 301 to 308: the \<^verbatim>\<open>finally\<close> block. Its first component is the exception
  that leaves the block, if any.\<close>

definition cleanup :: "world \<Rightarrow> string option \<Rightarrow> exn option \<times> world" where
  "cleanup w temp_file_path =
     (case temp_file_path of
        None \<Rightarrow> (None, w)
      | Some p \<Rightarrow>
          if p \<noteq> [] \<and> os_path_exists w p
          then (case os_remove w p of
                  Inr w' \<Rightarrow> (None, logger INFO ''Cleaned up temporary file: '' (Str p) w')
                | Inl e \<Rightarrow> (None, logger WARNING ''Failed to cleanup temp file: '' (Exc e) w))
          else (None, w))"

text \<open>An exception that leaves a \<^verbatim>\<open>finally\<close> block replaces the pending outcome.\<close>

definition run_finally :: "'a \<Rightarrow> exn option \<Rightarrow> failure + 'a" where
  "run_finally pending raised = (case raised of None \<Rightarrow> Inr pending | Some e \<Rightarrow> Inl (Uncaught e))"

definition add_file_to_library :: "env \<Rightarrow> world \<Rightarrow> AddFileRequest \<Rightarrow> (failure + AddFileResponse) \<times> world" where
  "add_file_to_library en w request =
     (case try_body en w request of
        (r, w1, temp_file_path) \<Rightarrow>
          (case except_handlers request (r, w1) of
             (outcome, w2) \<Rightarrow>
               (case cleanup w2 temp_file_path of
                  (raised, w3) \<Rightarrow>
                    (case run_finally outcome raised of
                       Inl f \<Rightarrow> (Inl f, w3)
                     | Inr out \<Rightarrow> (out, w3)))))"

subsection \<open>Where a path leads\<close>

text \<open>
  To say where a staged file lands, a path is resolved the way \<^verbatim>\<open>posixpath.normpath\<close>
  does: split at the separator, drop empty and \<^verbatim>\<open>.\<close> components, let \<^verbatim>\<open>..\<close> cancel
  the component before it.
\<close>

fun split_sep :: "string \<Rightarrow> string list" where
  "split_sep [] = [[]]"
| "split_sep (c # cs) =
     (if c = CHR ''/'' then [] # split_sep cs
      else (case split_sep cs of [] \<Rightarrow> [[c]] | x # xs \<Rightarrow> (c # x) # xs))"

fun norm_comps :: "bool \<Rightarrow> string list \<Rightarrow> string list \<Rightarrow> string list" where
  "norm_comps initial_slashes new_comps [] = new_comps"
| "norm_comps initial_slashes new_comps (c # comps) =
     (if c = [] \<or> c = ''.'' then norm_comps initial_slashes new_comps comps
      else if c \<noteq> ''..'' \<or> (\<not> initial_slashes \<and> new_comps = [])
                \<or> (new_comps \<noteq> [] \<and> last new_comps = ''..'')
      then norm_comps initial_slashes (new_comps @ [c]) comps
      else if new_comps \<noteq> [] then norm_comps initial_slashes (butlast new_comps) comps
      else norm_comps initial_slashes new_comps comps)"

definition normpath_comps :: "string \<Rightarrow> string list" where
  "normpath_comps path = norm_comps (take 1 path = ''/'') [] (split_sep path)"

text \<open>\<open>path_within d p\<close>: the resolved path \<open>p\<close> lies in the directory \<open>d\<close> or below it.\<close>

definition path_within :: "string \<Rightarrow> string \<Rightarrow> bool" where
  "path_within d p = prefix (normpath_comps d) (normpath_comps p)"

subsection \<open>Scenarios\<close>

text \<open>Scenario A of the specification: a reachable blob, an empty store, a parser that
  reports one document.\<close>

definition scenario_world :: world where
  "scenario_world = \<lparr>files = Map.empty, no_open = {}, no_write = {}, no_remove = {},
                      libraries = [], sent = [], clock = 0, logs = []\<rparr>"

definition scenario_env :: env where
  "scenario_env = \<lparr>gettempdir = ''/tmp'',
                    transfer = (\<lambda>rq. ([(Connect, 1), (Read, 2)],
                                      Inr \<lparr>status_code = 200, content = ''%PDF''\<rparr>)),
                    load_fault = (\<lambda>n. None),
                    create_fault = (\<lambda>n. None),
                    add_file = (\<lambda>l p fs. (Inr (PyDict [(PyStr ''docs_added'', PyInt 1)]), fs))\<rparr>"

definition scenario_request :: AddFileRequest where
  "scenario_request = \<lparr>filename = ''a.pdf'', library_name = ''lib1'',
                        blob_uri = ''https://example/a.pdf''\<rparr>"

text \<open>The same world with a staged path the operating system will not delete.\<close>

definition undeletable_world :: world where
  "undeletable_world = scenario_world\<lparr>no_remove := {''/tmp/llmware_a.pdf''}\<rparr>"

text \<open>Scenario B: the blob URI answers 404.\<close>

definition not_found_env :: env where
  "not_found_env = scenario_env\<lparr>transfer := (\<lambda>rq. ([(Connect, 1), (Read, 1)],
                                                    Inr \<lparr>status_code = 404, content = ''gone''\<rparr>))\<rparr>"

text \<open>Scenario C: the parser raises on the staged file.\<close>

definition unsupported_env :: env where
  "unsupported_env = scenario_env\<lparr>add_file := (\<lambda>l p fs. (Inl (OtherException ''unsupported file type''), fs))\<rparr>"

text \<open>A parser that itself fails on a network read and lets the \<^verbatim>\<open>httpx\<close> error out.\<close>

definition remote_parser_env :: env where
  "remote_parser_env = scenario_env\<lparr>add_file := (\<lambda>l p fs. (Inl (RequestError ''read timed out''), fs))\<rparr>"

text \<open>A store that fails on load for a reason other than absence.\<close>

definition faulty_store_env :: env where
  "faulty_store_env = scenario_env\<lparr>load_fault := (\<lambda>n. Some (OtherException ''database is locked''))\<rparr>"

text \<open>A parser that returns nothing.\<close>

definition silent_parser_env :: env where
  "silent_parser_env = scenario_env\<lparr>add_file := (\<lambda>l p fs. (Inr PyNone, fs))\<rparr>"

text \<open>A second blob and a second request for the same library.\<close>

definition second_blob_env :: env where
  "second_blob_env = scenario_env\<lparr>transfer := (\<lambda>rq. ([(Connect, 1), (Read, 2)],
                                                      Inr \<lparr>status_code = 200, content = ''other''\<rparr>))\<rparr>"


text \<open>A blob that arrives slowly: no single wait is long, their sum is.\<close>

definition slow_env :: env where
  "slow_env = scenario_env\<lparr>transfer := (\<lambda>rq. ([(Connect, 1), (Read, 200), (Read, 200)],
                                               Inr \<lparr>status_code = 200, content = ''%PDF''\<rparr>))\<rparr>"

text \<open>A blob whose origin stops sending for longer than five minutes.\<close>

definition stalled_env :: env where
  "stalled_env = scenario_env\<lparr>transfer := (\<lambda>rq. ([(Connect, 1), (Read, 301)],
                                                  Inr \<lparr>status_code = 200, content = ''%PDF''\<rparr>))\<rparr>"

text \<open>Parsers that return an empty list, and a summary of two entries.\<close>

definition empty_list_parser_env :: env where
  "empty_list_parser_env = scenario_env\<lparr>add_file := (\<lambda>l p fs. (Inr (PyList []), fs))\<rparr>"

definition two_entry_parser_env :: env where
  "two_entry_parser_env =
     scenario_env\<lparr>add_file := (\<lambda>l p fs. (Inr (PyDict [(PyStr ''docs_added'', PyInt 1),
                                                        (PyStr ''blocks_added'', PyInt 7)]), fs))\<rparr>"



section \<open>The stages of the pipeline\<close>

text \<open>
  Logging, library resolution and the download each touch their own part of the world.
  The lemmas of this section record which part, and \<open>try_body_stages\<close> then reads the
  body of the handler off the three collaborators applied to the world the call started in.
\<close>

lemma local_path_nonempty: "local_path en f \<noteq> []"
  by (simp add: local_path_def os_path_join_def)

lemma limit_Timeout: "limit (Timeout n) ph = n"
  by (cases ph) (simp_all add: Timeout_def)

lemma run_waits_times_out:
  "(ph, d) \<in> set ws \<Longrightarrow> limit t ph < d \<Longrightarrow> \<exists>ph'. fst (run_waits t ws) = Some ph'"
  by (induction ws) auto

lemma run_waits_all_short:
  "fst (run_waits t ws) = None \<Longrightarrow> (ph, d) \<in> set ws \<Longrightarrow> d \<le> limit t ph"
  using run_waits_times_out [of ph d ws t] by fastforce

lemma run_waits_bound: "snd (run_waits (Timeout n) ws) \<le> n * length ws"
proof (induction ws)
  case Nil
  then show ?case by simp
next
  case (Cons a ws)
  obtain ph d where a: "a = (ph, d)" by (cases a)
  show ?case
    using Cons by (simp add: a limit_Timeout)
qed

lemma client_get_times_out:
  assumes "(ph, d) \<in> set (fst (transfer en rq))" "limit (timeout rq) ph < d"
  shows "\<exists>ph'. client_get en rq = Inl (RequestError (timeout_text ph'))"
  using run_waits_times_out [OF assms] by (auto simp add: client_get_def)

lemma client_get_cong:
  "transfer en' rq = transfer en rq \<Longrightarrow> client_get en' rq = client_get en rq"
  "transfer en' rq = transfer en rq \<Longrightarrow> elapsed en' rq = elapsed en rq"
  by (simp_all add: client_get_def elapsed_def split: option.splits)

lemma logger_fields:
  "files (logger lv m a w) = files w"
  "no_open (logger lv m a w) = no_open w"
  "no_write (logger lv m a w) = no_write w"
  "no_remove (logger lv m a w) = no_remove w"
  "libraries (logger lv m a w) = libraries w"
  "sent (logger lv m a w) = sent w"
  by (simp_all add: logger_def)

lemma load_library_cong:
  "libraries w = libraries v \<Longrightarrow> load_library en w n = load_library en v n"
  by (simp add: load_library_def)

lemma create_fields:
  "files (snd (create_new_library en w n)) = files w"
  "no_open (snd (create_new_library en w n)) = no_open w"
  "no_write (snd (create_new_library en w n)) = no_write w"
  "no_remove (snd (create_new_library en w n)) = no_remove w"
  "sent (snd (create_new_library en w n)) = sent w"
  by (simp_all add: create_new_library_def split: option.splits)

lemma create_fst: "fst (create_new_library en w n) = (case create_fault en n of Some e \<Rightarrow> Inl e | None \<Rightarrow> Inr n)"
  by (simp add: create_new_library_def split: option.splits)

lemma create_libraries:
  "libraries (snd (create_new_library en w n)) =
     (case create_fault en n of Some e \<Rightarrow> libraries w | None \<Rightarrow> libraries w @ [n])"
  by (simp add: create_new_library_def split: option.splits)

lemma resolve_fields:
  "files (snd (resolve_library en w n)) = files w"
  "no_open (snd (resolve_library en w n)) = no_open w"
  "no_write (snd (resolve_library en w n)) = no_write w"
  "no_remove (snd (resolve_library en w n)) = no_remove w"
  "sent (snd (resolve_library en w n)) = sent w"
  by (simp_all add: resolve_library_def create_fields logger_fields split: sum.splits)

lemma resolve_fst:
  "fst (resolve_library en w n) =
     (case load_library en w n of Inr l \<Rightarrow> Inr l
      | Inl e \<Rightarrow> (case create_fault en n of Some e' \<Rightarrow> Inl e' | None \<Rightarrow> Inr n))"
  by (simp add: resolve_library_def create_fst split: sum.splits)

lemma resolve_libraries:
  "libraries (snd (resolve_library en w n)) =
     (case load_library en w n of Inr l \<Rightarrow> libraries w
      | Inl e \<Rightarrow> (case create_fault en n of Some e' \<Rightarrow> libraries w | None \<Rightarrow> libraries w @ [n]))"
  by (simp add: resolve_library_def create_libraries logger_fields split: sum.splits option.splits)

lemma resolve_fst_cong:
  "libraries w = libraries v \<Longrightarrow> fst (resolve_library en w n) = fst (resolve_library en v n)"
  by (simp add: resolve_fst load_library_cong [of w v])

lemma open_wb_write_cong:
  "files w = files v \<Longrightarrow> no_open w = no_open v \<Longrightarrow> no_write w = no_write v \<Longrightarrow>
   fst (open_wb_write w p d) = fst (open_wb_write v p d) \<and>
   files (snd (open_wb_write w p d)) = files (snd (open_wb_write v p d))"
  by (simp add: open_wb_write_def)

lemma open_wb_write_fields:
  "no_open (snd (open_wb_write w p d)) = no_open w"
  "no_write (snd (open_wb_write w p d)) = no_write w"
  "no_remove (snd (open_wb_write w p d)) = no_remove w"
  "libraries (snd (open_wb_write w p d)) = libraries w"
  "sent (snd (open_wb_write w p d)) = sent w"
  "logs (snd (open_wb_write w p d)) = logs w"
  by (simp_all add: open_wb_write_def)

lemma download_fst:
  "fst (download_file_from_uri en w uri f) =
     (case client_get en (get_request uri) of Inl e \<Rightarrow> Inl e
      | Inr r \<Rightarrow> (case raise_for_status r of Inl e \<Rightarrow> Inl e
          | Inr u \<Rightarrow> (case fst (open_wb_write w (local_path en f) (content r)) of
               Inl e \<Rightarrow> Inl e | Inr u \<Rightarrow> Inr (local_path en f))))"
  by (simp add: download_file_from_uri_def open_wb_write_def Let_def split: sum.splits)

lemma download_files:
  "files (snd (download_file_from_uri en w uri f)) =
     (case client_get en (get_request uri) of Inl e \<Rightarrow> files w
      | Inr r \<Rightarrow> (case raise_for_status r of Inl e \<Rightarrow> files w
          | Inr u \<Rightarrow> files (snd (open_wb_write w (local_path en f) (content r)))))"
  by (simp add: download_file_from_uri_def open_wb_write_def Let_def split: sum.splits)

lemma download_fields:
  "no_open (snd (download_file_from_uri en w uri f)) = no_open w"
  "no_write (snd (download_file_from_uri en w uri f)) = no_write w"
  "no_remove (snd (download_file_from_uri en w uri f)) = no_remove w"
  "libraries (snd (download_file_from_uri en w uri f)) = libraries w"
  "logs (snd (download_file_from_uri en w uri f)) = logs w"
  "sent (snd (download_file_from_uri en w uri f)) = sent w @ [get_request uri]"
  by (simp_all add: download_file_from_uri_def open_wb_write_def Let_def split: sum.splits)

lemma download_cong:
  assumes "files w = files v" "no_open w = no_open v" "no_write w = no_write v"
  shows "fst (download_file_from_uri en w uri f) = fst (download_file_from_uri en v uri f)"
    and "files (snd (download_file_from_uri en w uri f)) = files (snd (download_file_from_uri en v uri f))"
  using open_wb_write_cong [OF assms] assms(1)
  by (simp_all add: download_fst download_files split: sum.splits)


lemma resolve_libraries_cong:
  "libraries w = libraries v \<Longrightarrow>
   libraries (snd (resolve_library en w n)) = libraries (snd (resolve_library en v n))"
  by (simp add: resolve_libraries load_library_cong [of w v] split: sum.splits option.splits)

lemma try_body_stages:
  fixes en w req
  defines "R \<equiv> resolve_library en w (library_name req)"
      and "D \<equiv> download_file_from_uri en w (blob_uri req) (filename req)"
  shows
   "fst (try_body en w req) =
      (case fst R of
         Inl e \<Rightarrow> Inl e
       | Inr lib \<Rightarrow>
          (case fst D of
             Inl e \<Rightarrow> Inl e
           | Inr p \<Rightarrow>
              (case fst (add_file en lib p (files (snd D))) of
                 Inl e \<Rightarrow> Inl e
               | Inr out \<Rightarrow> mk_AddFileResponse (filename req) (library_name req)
                              (py_or out (PyDict [])) ''File added successfully to library'')))"
   "snd (snd (try_body en w req)) =
      (case fst R of Inl e \<Rightarrow> None
       | Inr lib \<Rightarrow> (case fst D of Inl e \<Rightarrow> None | Inr p \<Rightarrow> Some p))"
   "libraries (fst (snd (try_body en w req))) = libraries (snd R)"
   "no_remove (fst (snd (try_body en w req))) = no_remove w"
   "sent (fst (snd (try_body en w req))) =
      (case fst R of Inl e \<Rightarrow> sent w | Inr lib \<Rightarrow> sent w @ [get_request (blob_uri req)])"
   "files (fst (snd (try_body en w req))) =
      (case fst R of Inl e \<Rightarrow> files w
       | Inr lib \<Rightarrow>
          (case fst D of Inl e \<Rightarrow> files (snd D)
           | Inr p \<Rightarrow> snd (add_file en lib p (files (snd D)))))"
proof -
  let ?w3 = "logger INFO ''File: '' (Str (filename req))
              (logger INFO ''Blob URI: '' (Str (blob_uri req))
                (logger INFO ''Adding file to library: '' (Str (library_name req)) w))"
  obtain r4 w4 where R4: "resolve_library en ?w3 (library_name req) = (r4, w4)"
    by (cases "resolve_library en ?w3 (library_name req)")
  let ?w4 = "logger INFO ''Downloading file from: '' (Str (blob_uri req)) w4"
  obtain r5 w5 where D5: "download_file_from_uri en ?w4 (blob_uri req) (filename req) = (r5, w5)"
    by (cases "download_file_from_uri en ?w4 (blob_uri req) (filename req)")
  have r4: "r4 = fst R"
    using resolve_fst_cong [of ?w3 w en "library_name req"] R4 by (simp add: logger_fields R_def)
  have w4: "files w4 = files w" "no_open w4 = no_open w" "no_write w4 = no_write w"
           "no_remove w4 = no_remove w" "sent w4 = sent w" "libraries w4 = libraries (snd R)"
    using resolve_fields [of en ?w3 "library_name req"]
          resolve_libraries_cong [of ?w3 w en "library_name req"] R4
    by (simp_all add: logger_fields R_def)
  have r5: "r5 = fst D" and f5: "files w5 = files (snd D)"
    using download_cong [of ?w4 w en "blob_uri req" "filename req"] D5 w4
    by (simp_all add: logger_fields D_def)
  have w5: "no_remove w5 = no_remove w" "sent w5 = sent w @ [get_request (blob_uri req)]"
           "libraries w5 = libraries (snd R)"
    using download_fields [of en ?w4 "blob_uri req" "filename req"] D5 w4
    by (simp_all add: logger_fields)
  have body: "try_body en w req =
      (case r4 of
         Inl e \<Rightarrow> (Inl e, w4, None)
       | Inr library \<Rightarrow>
          (case r5 of
             Inl e \<Rightarrow> (Inl e, w5, None)
           | Inr p \<Rightarrow>
              (let w6 = logger INFO ''Processing file with LLMware: '' (Str p) w5 in
               case add_file en library p (files w6) of
                 (Inl e, fs) \<Rightarrow> (Inl e, w6\<lparr>files := fs\<rparr>, Some p)
               | (Inr out, fs) \<Rightarrow>
                   (mk_AddFileResponse (filename req) (library_name req)
                      (py_or out (PyDict [])) ''File added successfully to library'',
                    logger INFO ''File parsing complete: '' (Val out) (w6\<lparr>files := fs\<rparr>),
                    Some p))))"
    by (simp add: try_body_def Let_def R4 D5 split: sum.splits prod.splits)
  show "fst (try_body en w req) =
      (case fst R of
         Inl e \<Rightarrow> Inl e
       | Inr lib \<Rightarrow>
          (case fst D of
             Inl e \<Rightarrow> Inl e
           | Inr p \<Rightarrow>
              (case fst (add_file en lib p (files (snd D))) of
                 Inl e \<Rightarrow> Inl e
               | Inr out \<Rightarrow> mk_AddFileResponse (filename req) (library_name req)
                              (py_or out (PyDict [])) ''File added successfully to library'')))"
    unfolding body r4 [symmetric] r5 [symmetric] f5 [symmetric]
    by (simp add: Let_def logger_fields split: sum.splits prod.splits)
  show "snd (snd (try_body en w req)) =
      (case fst R of Inl e \<Rightarrow> None
       | Inr lib \<Rightarrow> (case fst D of Inl e \<Rightarrow> None | Inr p \<Rightarrow> Some p))"
    unfolding body r4 [symmetric] r5 [symmetric]
    by (simp add: Let_def split: sum.splits prod.splits)
  show "libraries (fst (snd (try_body en w req))) = libraries (snd R)"
    unfolding body
    by (simp add: Let_def logger_fields w4 w5 split: sum.splits prod.splits)
  show "no_remove (fst (snd (try_body en w req))) = no_remove w"
    unfolding body
    by (simp add: Let_def logger_fields w4 w5 split: sum.splits prod.splits)
  show "sent (fst (snd (try_body en w req))) =
      (case fst R of Inl e \<Rightarrow> sent w | Inr lib \<Rightarrow> sent w @ [get_request (blob_uri req)])"
    unfolding body r4 [symmetric]
    by (simp add: Let_def logger_fields w4 w5 split: sum.splits prod.splits)
  show "files (fst (snd (try_body en w req))) =
      (case fst R of Inl e \<Rightarrow> files w
       | Inr lib \<Rightarrow>
          (case fst D of Inl e \<Rightarrow> files (snd D)
           | Inr p \<Rightarrow> snd (add_file en lib p (files (snd D)))))"
    unfolding body r4 [symmetric] r5 [symmetric] f5 [symmetric]
    by (simp add: Let_def logger_fields w4 split: sum.splits prod.splits)
qed

lemma except_handlers_fields:
  "files (snd (except_handlers req (r, w))) = files w"
  "no_remove (snd (except_handlers req (r, w))) = no_remove w"
  "libraries (snd (except_handlers req (r, w))) = libraries w"
  "sent (snd (except_handlers req (r, w))) = sent w"
  by (simp_all add: except_handlers_def logger_fields split: sum.splits)

lemma except_handlers_fst:
  "fst (except_handlers req (r, w)) =
     (case r of
        Inr resp \<Rightarrow> Inr resp
      | Inl e \<Rightarrow>
          Inl (if isinstance_HTTPError e
               then HTTPException 400 (''Failed to download file from blob storage: '' @ str_exn e)
               else HTTPException 500 (''Failed to add file to library: '' @ str_exn e)))"
  by (simp add: except_handlers_def split: sum.splits)

lemma cleanup_never_raises: "fst (cleanup w tp) = None"
  by (simp add: cleanup_def split: option.splits sum.splits)

lemma cleanup_fields:
  "libraries (snd (cleanup w tp)) = libraries w"
  "sent (snd (cleanup w tp)) = sent w"
  "no_remove (snd (cleanup w tp)) = no_remove w"
  by (simp_all add: cleanup_def os_remove_def logger_fields split: option.splits sum.splits)

lemma add_file_to_library_fst:
  "fst (add_file_to_library en w req) =
     fst (except_handlers req (fst (try_body en w req), fst (snd (try_body en w req))))"
proof -
  obtain r w1 tp where tb: "try_body en w req = (r, w1, tp)"
    by (cases "try_body en w req")
  obtain out w2 where eh: "except_handlers req (r, w1) = (out, w2)"
    by (cases "except_handlers req (r, w1)")
  obtain raised w3 where cl: "cleanup w2 tp = (raised, w3)"
    by (cases "cleanup w2 tp")
  have "raised = None"
    using cleanup_never_raises [of w2 tp] cl by simp
  then show ?thesis
    by (simp add: add_file_to_library_def tb eh cl run_finally_def)
qed

lemma add_file_to_library_snd:
  "snd (add_file_to_library en w req) =
     snd (cleanup (snd (except_handlers req (fst (try_body en w req), fst (snd (try_body en w req)))))
            (snd (snd (try_body en w req))))"
proof -
  obtain r w1 tp where tb: "try_body en w req = (r, w1, tp)"
    by (cases "try_body en w req")
  obtain out w2 where eh: "except_handlers req (r, w1) = (out, w2)"
    by (cases "except_handlers req (r, w1)")
  obtain raised w3 where cl: "cleanup w2 tp = (raised, w3)"
    by (cases "cleanup w2 tp")
  show ?thesis
    by (simp add: add_file_to_library_def tb eh cl run_finally_def split: option.splits sum.splits)
qed

lemma add_file_to_library_sent:
  "sent (snd (add_file_to_library en w req)) =
     (case fst (resolve_library en w (library_name req)) of
        Inl e \<Rightarrow> sent w
      | Inr lib \<Rightarrow> sent w @ [get_request (blob_uri req)])"
  by (simp add: add_file_to_library_snd cleanup_fields except_handlers_fields try_body_stages)


section \<open>The blob fetcher\<close>

lemma transfer_field_unread:
  "local_path (en\<lparr>transfer := t\<rparr>) = local_path en"
  by (simp add: fun_eq_iff local_path_def)

lemma download_reads_one_exchange:
  assumes "t (get_request uri) = transfer en (get_request uri)"
  shows "download_file_from_uri (en\<lparr>transfer := t\<rparr>) w uri fname = download_file_from_uri en w uri fname"
proof -
  have "transfer (en\<lparr>transfer := t\<rparr>) (get_request uri) = transfer en (get_request uri)"
    using assms by simp
  then have "client_get (en\<lparr>transfer := t\<rparr>) (get_request uri) = client_get en (get_request uri)"
    and "elapsed (en\<lparr>transfer := t\<rparr>) (get_request uri) = elapsed en (get_request uri)"
    by (rule client_get_cong)+
  then show ?thesis
    unfolding download_file_from_uri_def transfer_field_unread by simp
qed

lemma download_clock:
  "clock (snd (download_file_from_uri en w uri f)) = clock w + elapsed en (get_request uri)"
  by (simp add: download_file_from_uri_def open_wb_write_def Let_def split: sum.splits)

lemma download_returns:
  assumes "client_get en (get_request uri) = Inr r" "is_success r"
      and "local_path en fname \<notin> no_open w" "local_path en fname \<notin> no_write w"
  shows "download_file_from_uri en w uri fname =
           (Inr (local_path en fname),
            w\<lparr>sent := sent w @ [get_request uri],
              clock := clock w + elapsed en (get_request uri),
              files := (files w)(local_path en fname \<mapsto> content r)\<rparr>)"
  using assms
  by (simp add: download_file_from_uri_def raise_for_status_def open_wb_write_def Let_def)

text \<open>
  Claim C7, as the specification states it, asks for a bound of 300 seconds on the whole
  GET. The client is built with \<^verbatim>\<open>timeout=300.0\<close>, which bounds each wait of the
  exchange and not their sum: a blob that arrives in two reads of 200 seconds is fetched
  and staged, 401 seconds after the call began.
\<close>

theorem slow_transfer_outlasts_300_seconds:
  "timeout (get_request ''https://example/a.pdf'') = Timeout 300 \<and>
   fst (download_file_from_uri slow_env scenario_world ''https://example/a.pdf'' ''a.pdf'')
     = Inr ''/tmp/llmware_a.pdf'' \<and>
   clock (snd (download_file_from_uri slow_env scenario_world ''https://example/a.pdf'' ''a.pdf''))
     = clock scenario_world + 401"
  by (simp add: download_fst download_clock client_get_def elapsed_def get_request_def Timeout_def
        raise_for_status_def is_success_def open_wb_write_def local_path_def os_path_join_def
        slow_env_def scenario_env_def client_get_def elapsed_def get_request_def Timeout_def scenario_world_def)

text \<open>
  Claim C7, amended. Every call to \<open>download_file_from_uri\<close> issues one request, a GET
  of the given URI that follows redirects, and depends on the network through the exchange
  for that request alone. Each wait of the exchange (pool, connect, write, read) is bounded
  by 300 seconds: if one lasts longer the fetcher raises a timeout and writes no file, and
  the call waits at most 300 seconds for each wait of the exchange; the total is not
  bounded. When the GET returns a response with a success status and the operating system
  refuses neither the open nor the write, the fetcher returns the staging path, and the
  world afterwards is the world before with the request sent, the time spent, and the
  whole response body stored at that path: one file written, nothing else touched, and
  the file still there when the fetcher returns. Conversely a returned path is the
  staging path, and comes with a success response whose body is the file.
\<close>

theorem download_one_get_one_file:
  "sent (snd (download_file_from_uri en w uri fname)) =
     sent w @ [\<lparr>verb = ''GET'', url = uri, follow_redirects = True, timeout = Timeout 300\<rparr>] \<and>
   (\<forall>t. t (get_request uri) = transfer en (get_request uri) \<longrightarrow>
      download_file_from_uri (en\<lparr>transfer := t\<rparr>) w uri fname = download_file_from_uri en w uri fname) \<and>
   (\<forall>ph d. (ph, d) \<in> set (fst (transfer en (get_request uri))) \<and> 300 < d \<longrightarrow>
      (\<exists>ph'. fst (download_file_from_uri en w uri fname) = Inl (RequestError (timeout_text ph'))) \<and>
      files (snd (download_file_from_uri en w uri fname)) = files w) \<and>
   clock (snd (download_file_from_uri en w uri fname)) \<le>
     clock w + 300 * length (fst (transfer en (get_request uri))) \<and>
   (\<forall>r. client_get en (get_request uri) = Inr r \<and> is_success r \<and>
        local_path en fname \<notin> no_open w \<and> local_path en fname \<notin> no_write w \<longrightarrow>
      download_file_from_uri en w uri fname =
        (Inr (local_path en fname),
         w\<lparr>sent := sent w @ [get_request uri],
           clock := clock w + elapsed en (get_request uri),
           files := (files w)(local_path en fname \<mapsto> content r)\<rparr>)) \<and>
   (\<forall>p. fst (download_file_from_uri en w uri fname) = Inr p \<longrightarrow>
      p = local_path en fname \<and>
      (\<exists>r. client_get en (get_request uri) = Inr r \<and> is_success r \<and>
           files (snd (download_file_from_uri en w uri fname)) = (files w)(p \<mapsto> content r)))"
proof (intro conjI allI impI)
  show "sent (snd (download_file_from_uri en w uri fname)) =
     sent w @ [\<lparr>verb = ''GET'', url = uri, follow_redirects = True, timeout = Timeout 300\<rparr>]"
    by (simp add: download_fields get_request_def)
next
  fix t
  assume "t (get_request uri) = transfer en (get_request uri)"
  then show "download_file_from_uri (en\<lparr>transfer := t\<rparr>) w uri fname = download_file_from_uri en w uri fname"
    by (rule download_reads_one_exchange)
next
  fix ph d
  assume a: "(ph, d) \<in> set (fst (transfer en (get_request uri))) \<and> 300 < d"
  then have "limit (timeout (get_request uri)) ph < d"
    by (simp add: get_request_def limit_Timeout)
  with a obtain ph' where g: "client_get en (get_request uri) = Inl (RequestError (timeout_text ph'))"
    using client_get_times_out [of ph d en "get_request uri"] by blast
  then show "\<exists>ph'. fst (download_file_from_uri en w uri fname) = Inl (RequestError (timeout_text ph'))"
    by (auto simp add: download_fst)
  from g show "files (snd (download_file_from_uri en w uri fname)) = files w"
    by (simp add: download_files)
next
  show "clock (snd (download_file_from_uri en w uri fname)) \<le>
     clock w + 300 * length (fst (transfer en (get_request uri)))"
    using run_waits_bound [of 300 "fst (transfer en (get_request uri))"]
    by (simp add: download_clock elapsed_def get_request_def)
next
  fix r
  assume "client_get en (get_request uri) = Inr r \<and> is_success r \<and>
        local_path en fname \<notin> no_open w \<and> local_path en fname \<notin> no_write w"
  then show "download_file_from_uri en w uri fname =
        (Inr (local_path en fname),
         w\<lparr>sent := sent w @ [get_request uri],
           clock := clock w + elapsed en (get_request uri),
           files := (files w)(local_path en fname \<mapsto> content r)\<rparr>)"
    by (simp add: download_returns)
next
  fix p
  assume p: "fst (download_file_from_uri en w uri fname) = Inr p"
  then show "p = local_path en fname"
    by (auto simp add: download_fst split: sum.splits)
  from p show "\<exists>r. client_get en (get_request uri) = Inr r \<and> is_success r \<and>
           files (snd (download_file_from_uri en w uri fname)) = (files w)(p \<mapsto> content r)"
    by (auto simp add: download_fst download_files raise_for_status_def open_wb_write_def
          split: sum.splits if_splits)
qed

theorem download_one_get_one_file_witness:
  "client_get scenario_env (get_request ''https://example/a.pdf'')
     = Inr \<lparr>status_code = 200, content = ''%PDF''\<rparr> \<and>
   is_success \<lparr>status_code = 200, content = ''%PDF''\<rparr> \<and>
   download_file_from_uri scenario_env scenario_world ''https://example/a.pdf'' ''a.pdf'' =
     (Inr ''/tmp/llmware_a.pdf'',
      scenario_world\<lparr>sent := [get_request ''https://example/a.pdf''], clock := 3,
                      files := [''/tmp/llmware_a.pdf'' \<mapsto> ''%PDF'']\<rparr>) \<and>
   (Read, 301) \<in> set (fst (transfer stalled_env (get_request ''https://example/a.pdf''))) \<and>
   fst (download_file_from_uri stalled_env scenario_world ''https://example/a.pdf'' ''a.pdf'')
     = Inl (RequestError ''ReadTimeout'') \<and>
   files (snd (download_file_from_uri stalled_env scenario_world ''https://example/a.pdf'' ''a.pdf''))
     = files scenario_world"
proof -
  let ?u = "''https://example/a.pdf''"
  note fetch = download_one_get_one_file [of scenario_env scenario_world ?u "''a.pdf''"]
  note stall = download_one_get_one_file [of stalled_env scenario_world ?u "''a.pdf''"]
  have g: "client_get scenario_env (get_request ?u) = Inr \<lparr>status_code = 200, content = ''%PDF''\<rparr>"
    by (simp add: client_get_def get_request_def Timeout_def scenario_env_def)
  have ok: "is_success \<lparr>status_code = 200, content = ''%PDF''\<rparr>"
    by (simp add: is_success_def)
  have lp: "local_path scenario_env ''a.pdf'' = ''/tmp/llmware_a.pdf''"
    by (simp add: local_path_def os_path_join_def scenario_env_def)
  have free: "local_path scenario_env ''a.pdf'' \<notin> no_open scenario_world"
             "local_path scenario_env ''a.pdf'' \<notin> no_write scenario_world"
    by (simp_all add: scenario_world_def)
  have el: "elapsed scenario_env (get_request ?u) = 3"
    by (simp add: elapsed_def get_request_def Timeout_def scenario_env_def)
  have "download_file_from_uri scenario_env scenario_world ?u ''a.pdf'' =
     (Inr (local_path scenario_env ''a.pdf''),
      scenario_world\<lparr>sent := sent scenario_world @ [get_request ?u],
                      clock := clock scenario_world + elapsed scenario_env (get_request ?u),
                      files := (files scenario_world)(local_path scenario_env ''a.pdf'' \<mapsto>
                                 content \<lparr>status_code = 200, content = ''%PDF''\<rparr>)\<rparr>)"
    by (rule fetch [THEN conjunct2, THEN conjunct2, THEN conjunct2, THEN conjunct2,
                    THEN conjunct1, rule_format])
       (simp add: g ok free)
  then have d: "download_file_from_uri scenario_env scenario_world ?u ''a.pdf'' =
     (Inr ''/tmp/llmware_a.pdf'',
      scenario_world\<lparr>sent := [get_request ?u], clock := 3,
                      files := [''/tmp/llmware_a.pdf'' \<mapsto> ''%PDF'']\<rparr>)"
    by (simp add: lp el scenario_world_def)
  have st: "(Read, 301) \<in> set (fst (transfer stalled_env (get_request ?u)))"
    by (simp add: stalled_env_def scenario_env_def)
  have "(\<exists>ph'. fst (download_file_from_uri stalled_env scenario_world ?u ''a.pdf'')
                    = Inl (RequestError (timeout_text ph'))) \<and>
        files (snd (download_file_from_uri stalled_env scenario_world ?u ''a.pdf'')) = files scenario_world"
    by (rule stall [THEN conjunct2, THEN conjunct2, THEN conjunct1, rule_format, of Read 301])
       (simp add: st)
  then have kept: "files (snd (download_file_from_uri stalled_env scenario_world ?u ''a.pdf'')) = files scenario_world"
    by (rule conjunct2)
  have which: "fst (download_file_from_uri stalled_env scenario_world ?u ''a.pdf'') = Inl (RequestError ''ReadTimeout'')"
    by (simp add: download_fst client_get_def get_request_def Timeout_def stalled_env_def scenario_env_def)
  show ?thesis
    by (intro conjI) (rule g ok d st which kept)+
qed

text \<open>
  Claim C9. When the GET raises, or answers with a status that is not a success, the
  fetcher raises and the files are what they were: the staging path is neither opened nor
  written.
\<close>


theorem failed_fetch_creates_no_file:
  assumes "(\<exists>e. client_get en (get_request uri) = Inl e) \<or>
           (\<exists>r. client_get en (get_request uri) = Inr r \<and> \<not> is_success r)"
  shows "(\<exists>e. fst (download_file_from_uri en w uri fname) = Inl e) \<and>
         files (snd (download_file_from_uri en w uri fname)) = files w"
  using assms
  by (auto simp add: download_fst download_files raise_for_status_def split: sum.splits)

theorem failed_fetch_creates_no_file_witness:
  "client_get not_found_env (get_request ''https://example/a.pdf'') = Inr \<lparr>status_code = 404, content = ''gone''\<rparr> \<and>
   \<not> is_success \<lparr>status_code = 404, content = ''gone''\<rparr> \<and>
   fst (download_file_from_uri not_found_env scenario_world ''https://example/a.pdf'' ''a.pdf'')
     = Inl (HTTPStatusError 404 ''bad status'') \<and>
   files (snd (download_file_from_uri not_found_env scenario_world ''https://example/a.pdf'' ''a.pdf''))
     = files scenario_world"
  using failed_fetch_creates_no_file [of not_found_env "''https://example/a.pdf''" scenario_world "''a.pdf''"]
  by (simp add: not_found_env_def scenario_env_def client_get_def elapsed_def get_request_def Timeout_def is_success_def download_fst raise_for_status_def)

subsection \<open>The staging path\<close>

lemma split_sep_nonempty: "split_sep s \<noteq> []"
  by (induction s) (auto split: list.splits)

lemma split_sep_append: "split_sep (a @ CHR ''/'' # b) = split_sep a @ split_sep b"
proof (induction a)
  case Nil
  then show ?case by simp
next
  case (Cons c cs)
  then show ?case
    using split_sep_nonempty [of cs]
    by (cases "split_sep cs") auto
qed

lemma split_sep_plain: "CHR ''/'' \<notin> set s \<Longrightarrow> split_sep s = [s]"
  by (induction s) auto

lemma norm_comps_append:
  "norm_comps ab acc (xs @ ys) = norm_comps ab (norm_comps ab acc xs) ys"
  by (induction xs arbitrary: acc) auto

lemma os_path_join_inject:
  "os_path_join a (''llmware_'' @ f) = os_path_join a (''llmware_'' @ g) \<longleftrightarrow> f = g"
  by (simp add: os_path_join_def)

lemma staged_name_plain:
  assumes "CHR ''/'' \<notin> set f"
  shows "norm_comps ab acc (split_sep (''llmware_'' @ f)) = acc @ [''llmware_'' @ f]"
proof -
  have "CHR ''/'' \<notin> set (''llmware_'' @ f)" using assms by simp
  then have "split_sep (''llmware_'' @ f) = [''llmware_'' @ f]" by (rule split_sep_plain)
  then show ?thesis by simp
qed

lemma join_within:
  assumes "CHR ''/'' \<notin> set f"
  shows "path_within a (os_path_join a (''llmware_'' @ f))"
proof (cases "a = []")
  case True
  then show ?thesis
    by (simp add: path_within_def normpath_comps_def os_path_join_def)
next
  case False
  note nonempty = this
  have hd: "take 1 (a @ s) = take 1 a" for s
    using nonempty by (cases a) auto
  show ?thesis
  proof (cases "last a = CHR ''/''")
    case True
    then obtain a' where a: "a = a' @ ''/''"
      using nonempty by (metis append_butlast_last_id)
    have j: "os_path_join a (''llmware_'' @ f) = a' @ CHR ''/'' # (''llmware_'' @ f)"
      using True nonempty a by (simp add: os_path_join_def)
    have sa: "split_sep a = split_sep a' @ [[]]"
      using split_sep_append [of a' "[]"] a by simp
    have t: "take 1 (a' @ CHR ''/'' # (''llmware_'' @ f)) = take 1 a"
      using hd [of "''llmware_'' @ f"] a by simp
    show ?thesis
      unfolding path_within_def normpath_comps_def j t sa split_sep_append norm_comps_append
      using staged_name_plain [OF assms] by simp
  next
    case False
    have j: "os_path_join a (''llmware_'' @ f) = a @ CHR ''/'' # (''llmware_'' @ f)"
      using False nonempty by (simp add: os_path_join_def)
    have t: "take 1 (a @ CHR ''/'' # (''llmware_'' @ f)) = take 1 a"
      by (rule hd)
    show ?thesis
      unfolding path_within_def normpath_comps_def j t split_sep_append norm_comps_append
      using staged_name_plain [OF assms] by simp
  qed
qed

text \<open>
  Claim C5, as the specification states it, asks that no file name can make the fetcher
  write outside the temporary directory. The fetcher joins the file name to the directory
  as it comes: a name with \<^verbatim>\<open>..\<close> components is staged at a path that resolves outside
  \<^verbatim>\<open>/tmp\<close>.
\<close>


theorem filename_with_dots_escapes_tempdir:
  "fst (download_file_from_uri scenario_env scenario_world ''https://example/a.pdf''
          ''x/../../etc/cron.d/job'') = Inr ''/tmp/llmware_x/../../etc/cron.d/job'' \<and>
   files (snd (download_file_from_uri scenario_env scenario_world ''https://example/a.pdf''
          ''x/../../etc/cron.d/job'')) ''/tmp/llmware_x/../../etc/cron.d/job'' = Some ''%PDF'' \<and>
   normpath_comps ''/tmp/llmware_x/../../etc/cron.d/job'' = [''etc'', ''cron.d'', ''job''] \<and>
   \<not> path_within ''/tmp'' ''/tmp/llmware_x/../../etc/cron.d/job''"
  by (simp add: scenario_env_def client_get_def elapsed_def get_request_def Timeout_def scenario_world_def download_fst download_files raise_for_status_def
        is_success_def open_wb_write_def local_path_def os_path_join_def path_within_def
        normpath_comps_def)

text \<open>
  Claim C5, amended. The staging path is the temporary directory joined with
  \<^verbatim>\<open>llmware_\<close> and the file name, unchanged; it lies in the temporary directory
  whenever the file name contains no path separator.
\<close>
theorem plain_filename_stays_in_tempdir:
  assumes "CHR ''/'' \<notin> set fname"
  shows "local_path en fname = os_path_join (gettempdir en) (''llmware_'' @ fname) \<and>
         path_within (gettempdir en) (local_path en fname)"
  using join_within [OF assms] by (simp add: local_path_def)

theorem plain_filename_stays_in_tempdir_witness:
  "CHR ''/'' \<notin> set ''a.pdf'' \<and> local_path scenario_env ''a.pdf'' = ''/tmp/llmware_a.pdf'' \<and>
   path_within ''/tmp'' ''/tmp/llmware_a.pdf''"
  using plain_filename_stays_in_tempdir [of "''a.pdf''" scenario_env]
  by (simp add: scenario_env_def client_get_def elapsed_def get_request_def Timeout_def local_path_def os_path_join_def)

text \<open>
  Claim C6, as the specification states it, asks that two calls with the same file name
  stage at different paths. They stage at the same path, and the second call overwrites
  what the first one staged.
\<close>


theorem same_filename_same_staging_path:
  "fst (download_file_from_uri scenario_env scenario_world ''https://example/a.pdf'' ''a.pdf'')
     = Inr ''/tmp/llmware_a.pdf'' \<and>
   fst (download_file_from_uri second_blob_env
          (snd (download_file_from_uri scenario_env scenario_world ''https://example/a.pdf'' ''a.pdf''))
          ''https://elsewhere/b.pdf'' ''a.pdf'')
     = Inr ''/tmp/llmware_a.pdf'' \<and>
   files (snd (download_file_from_uri second_blob_env
          (snd (download_file_from_uri scenario_env scenario_world ''https://example/a.pdf'' ''a.pdf''))
          ''https://elsewhere/b.pdf'' ''a.pdf'')) ''/tmp/llmware_a.pdf'' = Some ''other''"
  by (simp add: second_blob_env_def scenario_env_def client_get_def elapsed_def get_request_def Timeout_def scenario_world_def download_fst download_files
        download_fields raise_for_status_def is_success_def open_wb_write_def local_path_def os_path_join_def)

text \<open>
  Claim C6, amended. For one temporary directory the staging path is determined by the
  file name alone: two calls that return stage at the same path exactly when their file
  names are equal, whatever their URIs and whatever the state of the files.
\<close>
theorem staging_path_determined_by_filename:
  assumes "gettempdir en' = gettempdir en"
      and "fst (download_file_from_uri en w uri fname) = Inr p"
      and "fst (download_file_from_uri en' w' uri' fname') = Inr q"
  shows "p = q \<longleftrightarrow> fname = fname'"
proof -
  have "p = local_path en fname" "q = local_path en' fname'"
    using assms(2,3) by (auto simp add: download_fst split: sum.splits)
  then show ?thesis
    using assms(1) os_path_join_inject [of "gettempdir en" fname fname']
    by (simp add: local_path_def)
qed

theorem staging_path_determined_by_filename_witness:
  "gettempdir second_blob_env = gettempdir scenario_env \<and>
   fst (download_file_from_uri scenario_env scenario_world ''https://example/a.pdf'' ''a.pdf'')
     = Inr ''/tmp/llmware_a.pdf'' \<and>
   fst (download_file_from_uri second_blob_env scenario_world ''https://elsewhere/b.pdf'' ''a.pdf'')
     = Inr ''/tmp/llmware_a.pdf'' \<and>
   (''/tmp/llmware_a.pdf'' = ''/tmp/llmware_a.pdf'') = (''a.pdf'' = ''a.pdf'')"
  using staging_path_determined_by_filename [of second_blob_env scenario_env scenario_world
          "''https://example/a.pdf''" "''a.pdf''" "''/tmp/llmware_a.pdf''" scenario_world
          "''https://elsewhere/b.pdf''" "''a.pdf''" "''/tmp/llmware_a.pdf''"]
  by (simp add: second_blob_env_def scenario_env_def client_get_def elapsed_def get_request_def Timeout_def scenario_world_def download_fst
        raise_for_status_def is_success_def open_wb_write_def local_path_def os_path_join_def)

section \<open>Library resolution\<close>

text \<open>
  Claim C10. Whatever exception \<open>load_library\<close> raises, absence and store faults
  alike, resolution goes on to \<open>create_new_library\<close> with the same name and its result
  is the result of that creation. Resolution fails only when the load raised and the
  creation raised too, with the creation's exception. When the load raises and the
  creation succeeds, the call goes on to fetch the blob.
\<close>


theorem load_failure_falls_back_to_create:
  "(\<forall>e. load_library en w (library_name req) = Inl e \<longrightarrow>
        resolve_library en w (library_name req) =
          create_new_library en
            (logger INFO ''Creating new library: '' (Str (library_name req)) w) (library_name req)) \<and>
   (\<forall>e'. fst (resolve_library en w (library_name req)) = Inl e' \<longrightarrow>
        (\<exists>e. load_library en w (library_name req) = Inl e) \<and>
        create_fault en (library_name req) = Some e') \<and>
   (\<forall>e. load_library en w (library_name req) = Inl e \<longrightarrow>
        create_fault en (library_name req) = None \<longrightarrow>
        sent (snd (add_file_to_library en w req)) = sent w @ [get_request (blob_uri req)])"
  by (auto simp add: resolve_library_def add_file_to_library_sent resolve_fst create_fst
        split: sum.splits option.splits)

theorem load_failure_falls_back_to_create_witness:
  "load_library faulty_store_env scenario_world ''lib1'' = Inl (OtherException ''database is locked'') \<and>
   resolve_library faulty_store_env scenario_world ''lib1'' =
     (Inr ''lib1'',
      (logger INFO ''Creating new library: '' (Str ''lib1'') scenario_world)\<lparr>libraries := [''lib1'']\<rparr>) \<and>
   sent (snd (add_file_to_library faulty_store_env scenario_world scenario_request)) =
     [get_request ''https://example/a.pdf'']"
  using load_failure_falls_back_to_create [of faulty_store_env scenario_world scenario_request]
  by (simp add: faulty_store_env_def scenario_env_def client_get_def elapsed_def get_request_def Timeout_def scenario_world_def scenario_request_def
        load_library_def create_new_library_def logger_def)

section \<open>Cleanup of the staged file\<close>

lemma try_body_temp_file_path:
  assumes "snd (snd (try_body en w req)) = Some p"
  shows "p = local_path en (filename req)"
  using assms
  by (auto simp add: try_body_stages download_fst split: sum.splits)

lemma cleanup_removes:
  "p \<noteq> [] \<Longrightarrow> files (snd (cleanup w (Some p))) p = None \<or> p \<in> no_remove w"
  by (simp add: cleanup_def os_path_exists_def os_remove_def logger_fields)

lemma add_file_to_library_fst_cong:
  assumes "libraries v = libraries w" "files v = files w" "no_open v = no_open w" "no_write v = no_write w"
  shows "fst (add_file_to_library en v req) = fst (add_file_to_library en w req)"
proof -
  have "fst (resolve_library en v (library_name req)) = fst (resolve_library en w (library_name req))"
    using assms(1) by (rule resolve_fst_cong)
  moreover have "fst (download_file_from_uri en v (blob_uri req) (filename req)) =
                 fst (download_file_from_uri en w (blob_uri req) (filename req))"
    and "files (snd (download_file_from_uri en v (blob_uri req) (filename req))) =
         files (snd (download_file_from_uri en w (blob_uri req) (filename req)))"
    using assms(2-4) by (rule download_cong)+
  ultimately have "fst (try_body en v req) = fst (try_body en w req)"
    by (simp add: try_body_stages split: sum.splits)
  then show ?thesis
    by (simp add: add_file_to_library_fst except_handlers_fst)
qed

text \<open>
  Claim C1, as the specification states it, asks that the staged file never exists after
  the call. When the operating system refuses the removal, the handler logs a warning and
  returns: the call succeeds and the staged file is still there.
\<close>


theorem refused_removal_leaves_staged_file:
  "fst (add_file_to_library scenario_env undeletable_world scenario_request) =
     Inr \<lparr>out_filename = ''a.pdf'', out_library_name = ''lib1'',
          parsing_output = [(PyStr ''docs_added'', PyInt 1)],
          message = ''File added successfully to library''\<rparr> \<and>
   files (snd (add_file_to_library scenario_env undeletable_world scenario_request))
     ''/tmp/llmware_a.pdf'' = Some ''%PDF''"
  by (simp add: add_file_to_library_def try_body_def except_handlers_def cleanup_def run_finally_def
        resolve_library_def load_library_def create_new_library_def download_file_from_uri_def
        raise_for_status_def is_success_def open_wb_write_def local_path_def os_path_join_def
        os_path_exists_def os_remove_def logger_def get_request_def mk_AddFileResponse_def py_or_def
        scenario_env_def client_get_def elapsed_def get_request_def Timeout_def undeletable_world_def scenario_world_def scenario_request_def Let_def)

text \<open>
  Claim C1, amended. Whenever the fetcher returned the staging path, so that
  \<^verbatim>\<open>temp_file_path\<close> is set when the \<^verbatim>\<open>finally\<close> block runs, then on every exit
  path (a response, a parse failure, any other exception) no file exists at that path
  after the call, unless the operating system refused to remove it.
\<close>
theorem staged_file_gone_unless_removal_refused:
  assumes "snd (snd (try_body en w req)) = Some p"
  shows "files (snd (add_file_to_library en w req)) p = None \<or> p \<in> no_remove w"
proof -
  have "p \<noteq> []"
    using try_body_temp_file_path [OF assms] by (simp add: local_path_nonempty)
  let ?w2 = "snd (except_handlers req (fst (try_body en w req), fst (snd (try_body en w req))))"
  have "no_remove ?w2 = no_remove w"
    by (simp only: except_handlers_fields try_body_stages)
  with cleanup_removes [OF \<open>p \<noteq> []\<close>, of ?w2] show ?thesis
    by (simp only: add_file_to_library_snd assms)
qed

theorem staged_file_gone_unless_removal_refused_witness:
  "snd (snd (try_body unsupported_env scenario_world scenario_request)) = Some ''/tmp/llmware_a.pdf'' \<and>
   fst (add_file_to_library unsupported_env scenario_world scenario_request) =
     Inl (HTTPException 500 ''Failed to add file to library: unsupported file type'') \<and>
   files (snd (add_file_to_library unsupported_env scenario_world scenario_request))
     ''/tmp/llmware_a.pdf'' = None"
proof -
  have tp: "snd (snd (try_body unsupported_env scenario_world scenario_request)) = Some ''/tmp/llmware_a.pdf''"
    by (simp add: try_body_stages resolve_fst load_library_def download_fst raise_for_status_def
          is_success_def open_wb_write_def local_path_def os_path_join_def
          unsupported_env_def scenario_env_def client_get_def elapsed_def get_request_def Timeout_def scenario_world_def scenario_request_def)
  have out: "fst (add_file_to_library unsupported_env scenario_world scenario_request) =
     Inl (HTTPException 500 ''Failed to add file to library: unsupported file type'')"
    by (simp add: add_file_to_library_fst except_handlers_fst try_body_stages resolve_fst
          load_library_def download_fst raise_for_status_def
          is_success_def open_wb_write_def local_path_def os_path_join_def
          unsupported_env_def scenario_env_def client_get_def elapsed_def get_request_def Timeout_def scenario_world_def scenario_request_def)
  show ?thesis
    using staged_file_gone_unless_removal_refused [OF tp] tp out
    by (simp add: scenario_world_def)
qed

text \<open>
  Claim C8. The outcome of a call does not depend on which paths the operating system
  refuses to remove. The \<^verbatim>\<open>finally\<close> block never raises; when the removal raises it
  adds one warning to the log and changes nothing else; when the staged file is already
  gone it does nothing at all, and logs no warning.
\<close>


theorem cleanup_failure_is_logged_only:
  "fst (add_file_to_library en (w\<lparr>no_remove := S\<rparr>) req) = fst (add_file_to_library en w req) \<and>
   fst (cleanup v tp) = None \<and>
   (\<forall>p e. tp = Some p \<and> p \<noteq> [] \<and> files v p \<noteq> None \<and> os_remove v p = Inl e \<longrightarrow>
      cleanup v tp = (None, logger WARNING ''Failed to cleanup temp file: '' (Exc e) v)) \<and>
   (\<forall>p. tp = Some p \<and> files v p = None \<longrightarrow> cleanup v tp = (None, v))"
proof -
  have "fst (add_file_to_library en (w\<lparr>no_remove := S\<rparr>) req) = fst (add_file_to_library en w req)"
    by (rule add_file_to_library_fst_cong) simp_all
  moreover have "fst (cleanup v tp) = None"
    by (rule cleanup_never_raises)
  moreover have "\<forall>p e. tp = Some p \<and> p \<noteq> [] \<and> files v p \<noteq> None \<and> os_remove v p = Inl e \<longrightarrow>
      cleanup v tp = (None, logger WARNING ''Failed to cleanup temp file: '' (Exc e) v)"
    by (simp add: cleanup_def os_path_exists_def)
  moreover have "\<forall>p. tp = Some p \<and> files v p = None \<longrightarrow> cleanup v tp = (None, v)"
    by (simp add: cleanup_def os_path_exists_def)
  ultimately show ?thesis by blast
qed

theorem cleanup_failure_is_logged_only_witness:
  "fst (add_file_to_library scenario_env (scenario_world\<lparr>no_remove := {''/tmp/llmware_a.pdf''}\<rparr>) scenario_request)
     = fst (add_file_to_library scenario_env scenario_world scenario_request) \<and>
   os_remove (undeletable_world\<lparr>files := [''/tmp/llmware_a.pdf'' \<mapsto> ''%PDF'']\<rparr>) ''/tmp/llmware_a.pdf''
     = Inl (OSError ''Permission denied'') \<and>
   cleanup (undeletable_world\<lparr>files := [''/tmp/llmware_a.pdf'' \<mapsto> ''%PDF'']\<rparr>) (Some ''/tmp/llmware_a.pdf'')
     = (None, logger WARNING ''Failed to cleanup temp file: '' (Exc (OSError ''Permission denied''))
                (undeletable_world\<lparr>files := [''/tmp/llmware_a.pdf'' \<mapsto> ''%PDF'']\<rparr>)) \<and>
   cleanup scenario_world (Some ''/tmp/llmware_a.pdf'') = (None, scenario_world)"
proof -
  let ?W = "undeletable_world\<lparr>files := [''/tmp/llmware_a.pdf'' \<mapsto> ''%PDF'']\<rparr>"
  have rm: "os_remove ?W ''/tmp/llmware_a.pdf'' = Inl (OSError ''Permission denied'')"
    by (simp add: os_remove_def undeletable_world_def scenario_world_def)
  have ex: "files ?W ''/tmp/llmware_a.pdf'' \<noteq> None"
    by simp
  have gone: "files scenario_world ''/tmp/llmware_a.pdf'' = None"
    by (simp add: scenario_world_def)
  show ?thesis
    using cleanup_failure_is_logged_only
            [where en = scenario_env and w = scenario_world and S = "{''/tmp/llmware_a.pdf''}"
               and req = scenario_request and v = ?W and tp = "Some ''/tmp/llmware_a.pdf''"]
          cleanup_failure_is_logged_only
            [where en = scenario_env and w = scenario_world and S = "{}"
               and req = scenario_request and v = scenario_world and tp = "Some ''/tmp/llmware_a.pdf''"]
          rm ex gone
    by simp
qed

section \<open>Outcomes of the pipeline\<close>

lemma resolve_returns_name:
  "fst (resolve_library en w n) = Inr lib \<Longrightarrow> lib = n"
  by (auto simp add: resolve_fst load_library_def split: sum.splits option.splits if_splits)

lemma download_returns_local_path:
  "fst (download_file_from_uri en w uri f) = Inr p \<Longrightarrow> p = local_path en f"
  by (auto simp add: download_fst split: sum.splits)

lemma parser_field_unread:
  "load_library (en\<lparr>add_file := q\<rparr>) = load_library en"
  "create_new_library (en\<lparr>add_file := q\<rparr>) = create_new_library en"
  "local_path (en\<lparr>add_file := q\<rparr>) = local_path en"
  "client_get (en\<lparr>add_file := q\<rparr>) = client_get en"
  "elapsed (en\<lparr>add_file := q\<rparr>) = elapsed en"
  by (simp_all add: fun_eq_iff load_library_def create_new_library_def local_path_def
        client_get_def elapsed_def split: option.splits)

lemma parser_field_irrelevant:
  "resolve_library (en\<lparr>add_file := q\<rparr>) w n = resolve_library en w n"
  "download_file_from_uri (en\<lparr>add_file := q\<rparr>) w u f = download_file_from_uri en w u f"
  unfolding resolve_library_def download_file_from_uri_def parser_field_unread
  by simp_all

lemma try_body_without_parser:
  assumes "fst (download_file_from_uri en w (blob_uri req) (filename req)) = Inl e"
  shows "try_body (en\<lparr>add_file := q\<rparr>) w req = try_body en w req"
proof -
  let ?w3 = "logger INFO ''File: '' (Str (filename req))
              (logger INFO ''Blob URI: '' (Str (blob_uri req))
                (logger INFO ''Adding file to library: '' (Str (library_name req)) w))"
  obtain r4 w4 where R4: "resolve_library en ?w3 (library_name req) = (r4, w4)"
    by (cases "resolve_library en ?w3 (library_name req)")
  let ?w4 = "logger INFO ''Downloading file from: '' (Str (blob_uri req)) w4"
  obtain r5 w5 where D5: "download_file_from_uri en ?w4 (blob_uri req) (filename req) = (r5, w5)"
    by (cases "download_file_from_uri en ?w4 (blob_uri req) (filename req)")
  have w4: "files w4 = files w" "no_open w4 = no_open w" "no_write w4 = no_write w"
    using resolve_fields [of en ?w3 "library_name req"] R4 by (simp_all add: logger_fields)
  have "r5 = Inl e"
    using download_cong(1) [of ?w4 w en "blob_uri req" "filename req"] D5 w4 assms
    by (simp add: logger_fields)
  then show ?thesis
    by (simp add: try_body_def Let_def parser_field_irrelevant R4 D5 split: sum.splits)
qed

lemma add_file_to_library_without_parser:
  assumes "fst (download_file_from_uri en w (blob_uri req) (filename req)) = Inl e"
  shows "add_file_to_library (en\<lparr>add_file := q\<rparr>) w req = add_file_to_library en w req"
  by (simp add: add_file_to_library_def try_body_without_parser [OF assms])

lemma mk_AddFileResponse_Inr:
  assumes "mk_AddFileResponse f l (py_or out (PyDict [])) m = Inr resp"
  shows "(if truthy out then out = PyDict (parsing_output resp) else parsing_output resp = []) \<and>
         out_filename resp = f \<and> out_library_name resp = l \<and> message resp = m"
  using assms
  by (cases out) (auto simp add: mk_AddFileResponse_def py_or_def split: if_splits)

text \<open>
  Claim C2, as the specification states it, asks that an exception of the parse stage
  never yields a 400. The handlers tell exceptions apart by class and not by stage: the
  blob is fetched, the parser raises an \<^verbatim>\<open>httpx\<close> error of its own, and the caller gets
  a 400.
\<close>


theorem parser_httpx_error_yields_400:
  "fst (download_file_from_uri remote_parser_env scenario_world ''https://example/a.pdf'' ''a.pdf'')
     = Inr ''/tmp/llmware_a.pdf'' \<and>
   add_file remote_parser_env ''lib1'' ''/tmp/llmware_a.pdf'' [''/tmp/llmware_a.pdf'' \<mapsto> ''%PDF'']
     = (Inl (RequestError ''read timed out''), [''/tmp/llmware_a.pdf'' \<mapsto> ''%PDF'']) \<and>
   fst (add_file_to_library remote_parser_env scenario_world scenario_request)
     = Inl (HTTPException 400 ''Failed to download file from blob storage: read timed out'')"
  by (simp add: add_file_to_library_fst except_handlers_fst try_body_stages resolve_fst
        load_library_def download_fst download_files raise_for_status_def
        is_success_def open_wb_write_def local_path_def os_path_join_def
        remote_parser_env_def scenario_env_def client_get_def elapsed_def get_request_def Timeout_def scenario_world_def scenario_request_def)

text \<open>
  Claim C2, amended. Once the library is resolved: when the fetcher raises because the
  GET raised an \<^verbatim>\<open>httpx.HTTPError\<close> or answered with a status that is not a success,
  the outcome is a 400 carrying the text of that exception, and the call is the same
  whatever the parser is, which is never consulted. When the fetch returns and the parser
  raises, the outcome is a 500 carrying the text of the parser's exception, unless that
  exception is itself an \<^verbatim>\<open>httpx.HTTPError\<close>, in which case it is a 400.
\<close>
theorem outcome_class_follows_exception_class:
  assumes "fst (resolve_library en w (library_name req)) = Inr lib"
  shows
   "(\<forall>e. fst (download_file_from_uri en w (blob_uri req) (filename req)) = Inl e \<and>
         ((client_get en (get_request (blob_uri req)) = Inl e \<and> isinstance_HTTPError e) \<or>
          (\<exists>r. client_get en (get_request (blob_uri req)) = Inr r \<and> \<not> is_success r)) \<longrightarrow>
         fst (add_file_to_library en w req) =
           Inl (HTTPException 400 (''Failed to download file from blob storage: '' @ str_exn e)) \<and>
         (\<forall>q. add_file_to_library (en\<lparr>add_file := q\<rparr>) w req = add_file_to_library en w req)) \<and>
    (\<forall>p e. fst (download_file_from_uri en w (blob_uri req) (filename req)) = Inr p \<and>
         fst (add_file en lib p (files (snd (download_file_from_uri en w (blob_uri req) (filename req)))))
           = Inl e \<longrightarrow>
         fst (add_file_to_library en w req) =
           Inl (if isinstance_HTTPError e
                then HTTPException 400 (''Failed to download file from blob storage: '' @ str_exn e)
                else HTTPException 500 (''Failed to add file to library: '' @ str_exn e)))"
proof (intro conjI allI impI)
  fix e
  assume a: "fst (download_file_from_uri en w (blob_uri req) (filename req)) = Inl e \<and>
         ((client_get en (get_request (blob_uri req)) = Inl e \<and> isinstance_HTTPError e) \<or>
          (\<exists>r. client_get en (get_request (blob_uri req)) = Inr r \<and> \<not> is_success r))"
  then have d: "fst (download_file_from_uri en w (blob_uri req) (filename req)) = Inl e"
    by simp
  have "isinstance_HTTPError e"
    using a by (auto simp add: download_fst raise_for_status_def split: sum.splits)
  then show "fst (add_file_to_library en w req) =
           Inl (HTTPException 400 (''Failed to download file from blob storage: '' @ str_exn e))"
    using assms d by (simp add: add_file_to_library_fst except_handlers_fst try_body_stages)
  fix q
  show "add_file_to_library (en\<lparr>add_file := q\<rparr>) w req = add_file_to_library en w req"
    using d by (rule add_file_to_library_without_parser)
next
  fix p e
  assume "fst (download_file_from_uri en w (blob_uri req) (filename req)) = Inr p \<and>
         fst (add_file en lib p (files (snd (download_file_from_uri en w (blob_uri req) (filename req)))))
           = Inl e"
  then show "fst (add_file_to_library en w req) =
           Inl (if isinstance_HTTPError e
                then HTTPException 400 (''Failed to download file from blob storage: '' @ str_exn e)
                else HTTPException 500 (''Failed to add file to library: '' @ str_exn e))"
    using assms by (simp add: add_file_to_library_fst except_handlers_fst try_body_stages)
qed


theorem outcome_class_follows_exception_class_witness:
  "fst (resolve_library not_found_env scenario_world ''lib1'') = Inr ''lib1'' \<and>
   fst (download_file_from_uri not_found_env scenario_world ''https://example/a.pdf'' ''a.pdf'')
     = Inl (HTTPStatusError 404 ''bad status'') \<and>
   fst (add_file_to_library not_found_env scenario_world scenario_request)
     = Inl (HTTPException 400 ''Failed to download file from blob storage: bad status'') \<and>
   fst (resolve_library unsupported_env scenario_world ''lib1'') = Inr ''lib1'' \<and>
   fst (download_file_from_uri unsupported_env scenario_world ''https://example/a.pdf'' ''a.pdf'')
     = Inr ''/tmp/llmware_a.pdf'' \<and>
   fst (add_file_to_library unsupported_env scenario_world scenario_request)
     = Inl (HTTPException 500 ''Failed to add file to library: unsupported file type'')"
proof -
  have r1: "fst (resolve_library not_found_env scenario_world (library_name scenario_request)) = Inr ''lib1''"
    by (simp add: resolve_fst load_library_def not_found_env_def scenario_env_def client_get_def elapsed_def get_request_def Timeout_def scenario_world_def
          scenario_request_def)
  have d1: "fst (download_file_from_uri not_found_env scenario_world (blob_uri scenario_request)
                   (filename scenario_request)) = Inl (HTTPStatusError 404 ''bad status'')"
    by (simp add: download_fst raise_for_status_def is_success_def not_found_env_def scenario_env_def client_get_def elapsed_def get_request_def Timeout_def)
  have c1: "\<exists>r. client_get not_found_env (get_request (blob_uri scenario_request)) = Inr r \<and> \<not> is_success r"
    by (simp add: is_success_def not_found_env_def scenario_env_def client_get_def elapsed_def get_request_def Timeout_def)
  have o1: "fst (add_file_to_library not_found_env scenario_world scenario_request) =
              Inl (HTTPException 400 (''Failed to download file from blob storage: '' @
                     str_exn (HTTPStatusError 404 ''bad status'')))"
    using outcome_class_follows_exception_class [OF r1] d1 c1 by blast
  have r2: "fst (resolve_library unsupported_env scenario_world (library_name scenario_request)) = Inr ''lib1''"
    by (simp add: resolve_fst load_library_def unsupported_env_def scenario_env_def client_get_def elapsed_def get_request_def Timeout_def scenario_world_def
          scenario_request_def)
  have d2: "fst (download_file_from_uri unsupported_env scenario_world (blob_uri scenario_request)
                   (filename scenario_request)) = Inr ''/tmp/llmware_a.pdf''"
    by (simp add: download_fst raise_for_status_def is_success_def open_wb_write_def local_path_def
          os_path_join_def unsupported_env_def scenario_env_def client_get_def elapsed_def get_request_def Timeout_def scenario_world_def scenario_request_def)
  have p2: "fst (add_file unsupported_env ''lib1'' ''/tmp/llmware_a.pdf''
                  (files (snd (download_file_from_uri unsupported_env scenario_world
                     (blob_uri scenario_request) (filename scenario_request)))))
              = Inl (OtherException ''unsupported file type'')"
    by (simp add: unsupported_env_def scenario_env_def client_get_def elapsed_def get_request_def Timeout_def)
  have o2: "fst (add_file_to_library unsupported_env scenario_world scenario_request) =
              Inl (if isinstance_HTTPError (OtherException ''unsupported file type'')
                   then HTTPException 400 (''Failed to download file from blob storage: '' @
                          str_exn (OtherException ''unsupported file type''))
                   else HTTPException 500 (''Failed to add file to library: '' @
                          str_exn (OtherException ''unsupported file type'')))"
    using outcome_class_follows_exception_class [OF r2] d2 p2 by blast
  show ?thesis
    using r1 d1 o1 r2 d2 o2 by (simp add: scenario_request_def)
qed

lemma response_comes_from_parser:
  assumes "fst (add_file_to_library en w req) = Inr resp"
  shows "\<exists>out. fst (add_file en (library_name req) (local_path en (filename req))
                     (files (snd (download_file_from_uri en w (blob_uri req) (filename req))))) = Inr out \<and>
               (if truthy out then out = PyDict (parsing_output resp) else parsing_output resp = []) \<and>
               out_filename resp = filename req \<and> out_library_name resp = library_name req"
proof -
  let ?D = "download_file_from_uri en w (blob_uri req) (filename req)"
  have tb: "fst (try_body en w req) = Inr resp"
    using assms by (simp add: add_file_to_library_fst except_handlers_fst split: sum.splits)
  then obtain lib where R: "fst (resolve_library en w (library_name req)) = Inr lib"
    by (auto simp add: try_body_stages split: sum.splits)
  with tb obtain p where D: "fst ?D = Inr p"
    by (auto simp add: try_body_stages split: sum.splits)
  with tb R obtain out where P: "fst (add_file en lib p (files (snd ?D))) = Inr out"
    by (auto simp add: try_body_stages split: sum.splits)
  with tb R D have M: "mk_AddFileResponse (filename req) (library_name req) (py_or out (PyDict []))
                         ''File added successfully to library'' = Inr resp"
    by (simp add: try_body_stages)
  have "lib = library_name req" "p = local_path en (filename req)"
    using R D by (auto dest: resolve_returns_name download_returns_local_path)
  with P mk_AddFileResponse_Inr [OF M] show ?thesis
    by auto
qed

lemma parser_output_decides_response:
  assumes "fst (resolve_library en w (library_name req)) = Inr lib"
      and "fst (download_file_from_uri en w (blob_uri req) (filename req)) = Inr p"
      and "fst (add_file en lib p (files (snd (download_file_from_uri en w (blob_uri req) (filename req)))))
             = Inr out"
  shows "fst (add_file_to_library en w req) =
           (if truthy out
            then (case out of
                    PyDict kvs \<Rightarrow>
                      Inr \<lparr>out_filename = filename req, out_library_name = library_name req,
                           parsing_output = kvs, message = ''File added successfully to library''\<rparr>
                  | _ \<Rightarrow>
                      Inl (HTTPException 500 (''Failed to add file to library: '' @
                             ''parsing_output: Input should be a valid dictionary'')))
            else Inr \<lparr>out_filename = filename req, out_library_name = library_name req,
                      parsing_output = [], message = ''File added successfully to library''\<rparr>)"
proof -
  have "fst (try_body en w req) =
          mk_AddFileResponse (filename req) (library_name req) (py_or out (PyDict []))
            ''File added successfully to library''"
    using assms by (simp add: try_body_stages)
  then show ?thesis
    by (cases out)
       (simp_all add: add_file_to_library_fst except_handlers_fst mk_AddFileResponse_def py_or_def)
qed

text \<open>
  Claim C4. When the call returns a response, the parser was run on the staged file for the
  requested library and returned a value; if that value is truthy it is the dictionary in
  \<open>parsing_output\<close>, entry for entry, and if it is falsy \<open>parsing_output\<close> is empty.
  The file name and the library name of the response are those of the request.
  In the other direction, once the library is resolved and the blob staged, what the parser
  returns decides the outcome: any falsy value (not only \<^verbatim>\<open>None\<close>) gives a response
  with an empty \<open>parsing_output\<close>; any non-empty dictionary, whatever its entries, gives a
  response carrying exactly that dictionary; a truthy value that is no dictionary fails
  the response model and gives a 500.
\<close>

theorem parsing_output_is_what_the_parser_returned:
  "(\<forall>resp. fst (add_file_to_library en w req) = Inr resp \<longrightarrow>
      (\<exists>out. fst (add_file en (library_name req) (local_path en (filename req))
                     (files (snd (download_file_from_uri en w (blob_uri req) (filename req))))) = Inr out \<and>
             (if truthy out then out = PyDict (parsing_output resp) else parsing_output resp = []) \<and>
             out_filename resp = filename req \<and> out_library_name resp = library_name req)) \<and>
   (\<forall>lib p out.
      fst (resolve_library en w (library_name req)) = Inr lib \<and>
      fst (download_file_from_uri en w (blob_uri req) (filename req)) = Inr p \<and>
      fst (add_file en lib p (files (snd (download_file_from_uri en w (blob_uri req) (filename req)))))
        = Inr out \<longrightarrow>
      fst (add_file_to_library en w req) =
        (if truthy out
         then (case out of
                 PyDict kvs \<Rightarrow>
                   Inr \<lparr>out_filename = filename req, out_library_name = library_name req,
                        parsing_output = kvs, message = ''File added successfully to library''\<rparr>
               | _ \<Rightarrow>
                   Inl (HTTPException 500 (''Failed to add file to library: '' @
                          ''parsing_output: Input should be a valid dictionary'')))
         else Inr \<lparr>out_filename = filename req, out_library_name = library_name req,
                   parsing_output = [], message = ''File added successfully to library''\<rparr>))"
proof (intro conjI allI impI)
  fix resp
  assume "fst (add_file_to_library en w req) = Inr resp"
  then show "\<exists>out. fst (add_file en (library_name req) (local_path en (filename req))
                     (files (snd (download_file_from_uri en w (blob_uri req) (filename req))))) = Inr out \<and>
             (if truthy out then out = PyDict (parsing_output resp) else parsing_output resp = []) \<and>
             out_filename resp = filename req \<and> out_library_name resp = library_name req"
    by (rule response_comes_from_parser)
next
  fix lib p out
  assume a: "fst (resolve_library en w (library_name req)) = Inr lib \<and>
      fst (download_file_from_uri en w (blob_uri req) (filename req)) = Inr p \<and>
      fst (add_file en lib p (files (snd (download_file_from_uri en w (blob_uri req) (filename req)))))
        = Inr out"
  show "fst (add_file_to_library en w req) =
        (if truthy out
         then (case out of
                 PyDict kvs \<Rightarrow>
                   Inr \<lparr>out_filename = filename req, out_library_name = library_name req,
                        parsing_output = kvs, message = ''File added successfully to library''\<rparr>
               | _ \<Rightarrow>
                   Inl (HTTPException 500 (''Failed to add file to library: '' @
                          ''parsing_output: Input should be a valid dictionary'')))
         else Inr \<lparr>out_filename = filename req, out_library_name = library_name req,
                   parsing_output = [], message = ''File added successfully to library''\<rparr>)"
    using a by (simp add: parser_output_decides_response [of en w req lib p out])
qed

theorem parsing_output_is_what_the_parser_returned_witness:
  "fst (resolve_library scenario_env scenario_world ''lib1'') = Inr ''lib1'' \<and>
   fst (download_file_from_uri scenario_env scenario_world ''https://example/a.pdf'' ''a.pdf'')
     = Inr ''/tmp/llmware_a.pdf'' \<and>
   fst (add_file two_entry_parser_env ''lib1'' ''/tmp/llmware_a.pdf'' [''/tmp/llmware_a.pdf'' \<mapsto> ''%PDF''])
     = Inr (PyDict [(PyStr ''docs_added'', PyInt 1), (PyStr ''blocks_added'', PyInt 7)]) \<and>
   fst (add_file_to_library two_entry_parser_env scenario_world scenario_request) =
     Inr \<lparr>out_filename = ''a.pdf'', out_library_name = ''lib1'',
          parsing_output = [(PyStr ''docs_added'', PyInt 1), (PyStr ''blocks_added'', PyInt 7)],
          message = ''File added successfully to library''\<rparr> \<and>
   fst (add_file empty_list_parser_env ''lib1'' ''/tmp/llmware_a.pdf'' [''/tmp/llmware_a.pdf'' \<mapsto> ''%PDF''])
     = Inr (PyList []) \<and>
   fst (add_file_to_library empty_list_parser_env scenario_world scenario_request) =
     Inr \<lparr>out_filename = ''a.pdf'', out_library_name = ''lib1'',
          parsing_output = [],
          message = ''File added successfully to library''\<rparr> \<and>
   fst (add_file silent_parser_env ''lib1'' ''/tmp/llmware_a.pdf'' [''/tmp/llmware_a.pdf'' \<mapsto> ''%PDF''])
     = Inr PyNone \<and>
   fst (add_file_to_library silent_parser_env scenario_world scenario_request) =
     Inr \<lparr>out_filename = ''a.pdf'', out_library_name = ''lib1'',
          parsing_output = [],
          message = ''File added successfully to library''\<rparr>"
proof -
  let ?u = "''https://example/a.pdf''"
  let ?p = "''/tmp/llmware_a.pdf''"
  let ?fs = "[''/tmp/llmware_a.pdf'' \<mapsto> ''%PDF'']"
  have r0: "fst (resolve_library scenario_env scenario_world ''lib1'') = Inr ''lib1''"
    by (simp add: resolve_fst load_library_def scenario_env_def scenario_world_def)
  have d0: "fst (download_file_from_uri scenario_env scenario_world ?u ''a.pdf'') = Inr ?p"
    by (simp add: download_fst client_get_def get_request_def Timeout_def raise_for_status_def
          is_success_def open_wb_write_def local_path_def os_path_join_def
          scenario_env_def scenario_world_def)
  have f0: "files (snd (download_file_from_uri scenario_env scenario_world ?u ''a.pdf'')) = ?fs"
    by (simp add: download_files client_get_def get_request_def Timeout_def raise_for_status_def
          is_success_def open_wb_write_def local_path_def os_path_join_def
          scenario_env_def scenario_world_def)
  have same:
    "resolve_library (scenario_env\<lparr>add_file := q\<rparr>) scenario_world ''lib1'' =
       resolve_library scenario_env scenario_world ''lib1''"
    "download_file_from_uri (scenario_env\<lparr>add_file := q\<rparr>) scenario_world ?u ''a.pdf'' =
       download_file_from_uri scenario_env scenario_world ?u ''a.pdf''" for q
    by (rule parser_field_irrelevant)+
  have pre: "fst (resolve_library (scenario_env\<lparr>add_file := q\<rparr>) scenario_world
                    (library_name scenario_request)) = Inr ''lib1'' \<and>
             fst (download_file_from_uri (scenario_env\<lparr>add_file := q\<rparr>) scenario_world
                    (blob_uri scenario_request) (filename scenario_request)) = Inr ?p \<and>
             fst (add_file (scenario_env\<lparr>add_file := q\<rparr>) ''lib1'' ?p
                    (files (snd (download_file_from_uri (scenario_env\<lparr>add_file := q\<rparr>) scenario_world
                       (blob_uri scenario_request) (filename scenario_request))))) = fst (q ''lib1'' ?p ?fs)" for q
    by (simp add: same r0 d0 f0 scenario_request_def)
  have two: "fst (add_file_to_library two_entry_parser_env scenario_world scenario_request) =
     Inr \<lparr>out_filename = ''a.pdf'', out_library_name = ''lib1'',
          parsing_output = [(PyStr ''docs_added'', PyInt 1), (PyStr ''blocks_added'', PyInt 7)],
          message = ''File added successfully to library''\<rparr>"
    using parsing_output_is_what_the_parser_returned
            [of two_entry_parser_env scenario_world scenario_request,
             THEN conjunct2, rule_format,
             of "''lib1''" ?p "PyDict [(PyStr ''docs_added'', PyInt 1), (PyStr ''blocks_added'', PyInt 7)]"]
          pre [of "\<lambda>l p fs. (Inr (PyDict [(PyStr ''docs_added'', PyInt 1), (PyStr ''blocks_added'', PyInt 7)]), fs)"]
    by (simp add: two_entry_parser_env_def scenario_request_def)
  have emp: "fst (add_file_to_library empty_list_parser_env scenario_world scenario_request) =
     Inr \<lparr>out_filename = ''a.pdf'', out_library_name = ''lib1'',
          parsing_output = [],
          message = ''File added successfully to library''\<rparr>"
    using parsing_output_is_what_the_parser_returned
            [of empty_list_parser_env scenario_world scenario_request,
             THEN conjunct2, rule_format, of "''lib1''" ?p "PyList []"]
          pre [of "\<lambda>l p fs. (Inr (PyList []), fs)"]
    by (simp add: empty_list_parser_env_def scenario_request_def)
  have non: "fst (add_file_to_library silent_parser_env scenario_world scenario_request) =
     Inr \<lparr>out_filename = ''a.pdf'', out_library_name = ''lib1'',
          parsing_output = [],
          message = ''File added successfully to library''\<rparr>"
    using parsing_output_is_what_the_parser_returned
            [of silent_parser_env scenario_world scenario_request,
             THEN conjunct2, rule_format, of "''lib1''" ?p PyNone]
          pre [of "\<lambda>l p fs. (Inr PyNone, fs)"]
    by (simp add: silent_parser_env_def scenario_request_def)
  have outs:
    "fst (add_file two_entry_parser_env ''lib1'' ?p ?fs)
       = Inr (PyDict [(PyStr ''docs_added'', PyInt 1), (PyStr ''blocks_added'', PyInt 7)])"
    "fst (add_file empty_list_parser_env ''lib1'' ?p ?fs) = Inr (PyList [])"
    "fst (add_file silent_parser_env ''lib1'' ?p ?fs) = Inr PyNone"
    by (simp_all add: two_entry_parser_env_def empty_list_parser_env_def silent_parser_env_def)
  show ?thesis
    by (intro conjI) (rule r0 d0 two emp non outs)+
qed

section \<open>Load or create\<close>












end
